theory Spec2Isabelle
  imports Complex_Main
begin

section \<open>The lateral path planner (selfdrive/controls/lib/pathplanner.py)\<close>

text \<open>
  A shallow embedding of \<^verbatim>\<open>PathPlanner\<close>: the limiter \<^verbatim>\<open>limit_ctrl\<close>, the delay
  compensator \<^verbatim>\<open>calc_states_after_delay\<close> and the per-tick function \<^verbatim>\<open>update\<close> with
  its lane-change state machine, its authority limiter and its bookkeeping of the solver's
  health.

  Python floats are modelled as real numbers: rounding and overflow are not modelled.
  The values that come out of the solver's buffers, which may be NaN, have the type
  \<open>pyfloat\<close> with an explicit NaN; a comparison with NaN is false and arithmetic on NaN
  gives NaN, as in Python. The values read from the message bus (car state, live
  parameters) and from the vehicle model are finite.
\<close>

subsection \<open>Floats with NaN\<close>

datatype pyfloat = Num real | NaN

fun isnan :: "pyfloat \<Rightarrow> bool" where
  "isnan NaN = True"
| "isnan (Num _) = False"

fun fadd :: "pyfloat \<Rightarrow> pyfloat \<Rightarrow> pyfloat" where
  "fadd (Num a) (Num b) = Num (a + b)"
| "fadd _ _ = NaN"

fun fsub :: "pyfloat \<Rightarrow> pyfloat \<Rightarrow> pyfloat" where
  "fsub (Num a) (Num b) = Num (a - b)"
| "fsub _ _ = NaN"

fun fmul :: "pyfloat \<Rightarrow> pyfloat \<Rightarrow> pyfloat" where
  "fmul (Num a) (Num b) = Num (a * b)"
| "fmul _ _ = NaN"

fun fgt :: "pyfloat \<Rightarrow> pyfloat \<Rightarrow> bool" where
  "fgt (Num a) (Num b) = (a > b)"
| "fgt _ _ = False"

fun flt :: "pyfloat \<Rightarrow> pyfloat \<Rightarrow> bool" where
  "flt (Num a) (Num b) = (a < b)"
| "flt _ _ = False"

text \<open>\<^verbatim>\<open>math.radians\<close> and \<^verbatim>\<open>math.degrees\<close>.\<close>

definition radians :: "real \<Rightarrow> real" where
  "radians a = a * pi / 180"

definition degrees :: "real \<Rightarrow> real" where
  "degrees a = a * 180 / pi"

fun fdegrees :: "pyfloat \<Rightarrow> pyfloat" where
  "fdegrees (Num a) = Num (degrees a)"
| "fdegrees NaN = NaN"

subsection \<open>Errors\<close>

datatype error = ZeroDivisionError | IndexError

definition pydiv :: "real \<Rightarrow> real \<Rightarrow> error + real" where
  "pydiv a b = (if b = 0 then Inl ZeroDivisionError else Inr (a / b))"

definition index :: "'a list \<Rightarrow> nat \<Rightarrow> error + 'a" where
  "index xs n = (if n < length xs then Inr (xs ! n) else Inl IndexError)"

definition bind_res :: "error + 'a \<Rightarrow> ('a \<Rightarrow> error + 'b) \<Rightarrow> error + 'b" where
  "bind_res m f = (case m of Inl e \<Rightarrow> Inl e | Inr v \<Rightarrow> f v)"

subsection \<open>Constants and helpers that live outside pathplanner.py\<close>

text \<open>Modelled from the spec: \<^verbatim>\<open>DT_MDL\<close> of common.realtime, 0.05 s.\<close>

definition DT_MDL :: real where
  "DT_MDL = 0.05"

text \<open>Modelled from the spec: \<^verbatim>\<open>CV.KPH_TO_MS\<close> of selfdrive.config, km/h to m/s.\<close>

definition KPH_TO_MS :: real where
  "KPH_TO_MS = 1 / 3.6"

definition LANE_CHANGE_SPEED_MIN :: real where
  "LANE_CHANGE_SPEED_MIN = 60 * KPH_TO_MS"

definition LANE_CHANGE_TIME_MAX :: real where
  "LANE_CHANGE_TIME_MAX = 10"

text \<open>
  Modelled from the spec: \<^verbatim>\<open>interp\<close> of common.numpy_fast, piecewise-linear interpolation
  over the table \<open>xp\<close>, \<open>fp\<close> with flat extrapolation outside the table's domain.
\<close>

fun interp :: "real \<Rightarrow> real list \<Rightarrow> real list \<Rightarrow> real" where
  "interp v (x0 # x1 # xs) (y0 # y1 # ys) =
     (if v \<le> x0 then y0
      else if v \<le> x1 then (v - x0) * (y1 - y0) / (x1 - x0) + y0
      else interp v (x1 # xs) (y1 # ys))"
| "interp v [x0] (y0 # ys) = y0"
| "interp v xs ys = 0"

subsection \<open>Data\<close>

datatype LaneChangeState =
  off | preLaneChange | laneChangeStarting | laneChangeFinishing | laneChangeDone

datatype LaneChangeDirection = none | left | right

datatype Desire = Desire_none | laneChangeLeft | laneChangeRight

text \<open>The table \<^verbatim>\<open>DESIRES\<close>.\<close>

fun DESIRES :: "LaneChangeDirection \<Rightarrow> LaneChangeState \<Rightarrow> Desire" where
  "DESIRES none off = Desire_none"
| "DESIRES none preLaneChange = Desire_none"
| "DESIRES none laneChangeStarting = Desire_none"
| "DESIRES none laneChangeFinishing = Desire_none"
| "DESIRES none laneChangeDone = Desire_none"
| "DESIRES left off = Desire_none"
| "DESIRES left preLaneChange = Desire_none"
| "DESIRES left laneChangeStarting = laneChangeLeft"
| "DESIRES left laneChangeFinishing = laneChangeLeft"
| "DESIRES left laneChangeDone = laneChangeLeft"
| "DESIRES right off = Desire_none"
| "DESIRES right preLaneChange = Desire_none"
| "DESIRES right laneChangeStarting = laneChangeRight"
| "DESIRES right laneChangeFinishing = laneChangeRight"
| "DESIRES right laneChangeDone = laneChangeRight"

text \<open>The solver's \<^verbatim>\<open>state_t\<close> and \<^verbatim>\<open>log_t\<close>.\<close>

record state_t =
  state_x :: pyfloat
  state_y :: pyfloat
  state_psi :: pyfloat
  state_delta :: pyfloat

record log_t =
  sol_x :: "pyfloat list"
  sol_y :: "pyfloat list"
  sol_psi :: "pyfloat list"
  sol_delta :: "pyfloat list"
  sol_rate :: "pyfloat list"
  sol_cost :: pyfloat

text \<open>The fields of \<^verbatim>\<open>self\<close>.\<close>

record PathPlanner =
  last_cloudlog_t :: real
  steer_rate_cost :: real
  cur_state :: state_t
  angle_steers_des :: pyfloat
  angle_steers_des_mpc :: pyfloat
  angle_steers_des_prev :: pyfloat
  angle_steers_des_time :: real
  solution_invalid_cnt :: nat
  lane_change_enabled :: bool
  lane_change_auto_delay :: real
  lane_change_state :: LaneChangeState
  lane_change_direction :: LaneChangeDirection
  lane_change_run_timer :: real
  lane_change_wait_timer :: real
  lane_change_ll_prob :: real
  prev_one_blinker :: bool

text \<open>
  What one call of \<^verbatim>\<open>update\<close> reads: the messages of \<^verbatim>\<open>sm\<close>, the lane planner's
  values after \<^verbatim>\<open>parse_model\<close> (and its \<^verbatim>\<open>d_poly\<close> after \<^verbatim>\<open>update_d_poly\<close>), the
  vehicle model's \<^verbatim>\<open>sR\<close> and curvature factor after \<^verbatim>\<open>update_params\<close>,
  \<^verbatim>\<open>CP.steerActuatorDelay\<close>, what \<^verbatim>\<open>run_mpc\<close> writes into \<^verbatim>\<open>mpc_solution\<close> on this
  tick, the clock and the flag \<^verbatim>\<open>LOG_MPC\<close>. The solver, the lane planner and the
  vehicle model are outside pathplanner.py: the tick is modelled for every value they
  may give.
\<close>

record inputs =
  vEgo :: real
  steeringAngle :: real
  steeringTorque :: real
  steeringPressed :: bool
  leftBlinker :: bool
  rightBlinker :: bool
  leftBlindspot :: bool
  rightBlindspot :: bool
  active :: bool
  angleOffset :: real
  stiffnessFactor :: real
  steerRatio :: real
  liveParameters_valid :: bool
  all_alive_and_valid :: bool
  LP_l_prob :: real
  LP_r_prob :: real
  LP_l_lane_change_prob :: real
  LP_r_lane_change_prob :: real
  LP_lane_width :: real
  LP_l_poly :: "real list"
  LP_r_poly :: "real list"
  LP_d_poly :: "real list"
  VM_sR :: real
  VM_curvature_factor :: real
  steerActuatorDelay :: real
  mpc_solution :: log_t
  sec_since_boot :: real
  LOG_MPC :: bool

text \<open>The message \<^verbatim>\<open>pathPlan\<close>, and what else a tick does to the outside.\<close>

record pathPlan =
  plan_valid :: bool
  laneWidth :: real
  dPoly :: "real list"
  lPoly :: "real list"
  lProb :: real
  rPoly :: "real list"
  rProb :: real
  angleSteers :: pyfloat
  rateSteers :: pyfloat
  plan_angleOffset :: real
  mpcSolutionValid :: bool
  paramsValid :: bool
  desire :: Desire
  laneChangeState :: LaneChangeState
  laneChangeDirection :: LaneChangeDirection

record outputs =
  plan_send :: pathPlan
  liveMpc :: "log_t option"
  libmpc_init_called :: bool
  cloudlog_warning :: bool

subsection \<open>The limiter\<close>

text \<open>\<^verbatim>\<open>PathPlanner.limit_ctrl\<close> (lines 79 to 86).\<close>

definition limit_ctrl :: "pyfloat \<Rightarrow> pyfloat \<Rightarrow> pyfloat \<Rightarrow> pyfloat" where
  "limit_ctrl val limit offset =
     (let p_limit = fadd offset limit;
          m_limit = fsub offset limit
      in if fgt val p_limit then p_limit
         else if flt val m_limit then m_limit
         else val)"

subsection \<open>The delay compensator\<close>

text \<open>
  \<^verbatim>\<open>calc_states_after_delay\<close> (lines 48 to 51). The division of line 50 raises on a
  zero divisor; the call then returns no state, and the result is the exception alone
  (the write to \<open>x\<close> of line 49 has happened in place by then, and the caller never
  sees it).
\<close>

definition calc_states_after_delay ::
  "state_t \<Rightarrow> real \<Rightarrow> real \<Rightarrow> real \<Rightarrow> real \<Rightarrow> real \<Rightarrow> error + state_t" where
  "calc_states_after_delay states v_ego steer_angle curvature_factor steer_ratio delay =
     bind_res (pydiv (v_ego * curvature_factor * radians steer_angle) steer_ratio)
       (\<lambda>q. Inr (states\<lparr>state_x := Num (v_ego * delay), state_psi := Num (q * delay)\<rparr>))"

subsection \<open>Construction\<close>

text \<open>\<^verbatim>\<open>setup_mpc\<close> (lines 88 to 102): the solver is initialised and the state seeded.\<close>

definition setup_mpc :: "PathPlanner \<Rightarrow> PathPlanner" where
  "setup_mpc self =
     self\<lparr>cur_state := \<lparr>state_x = Num 0, state_y = Num 0, state_psi = Num 0, state_delta = Num 0\<rparr>,
          angle_steers_des := Num 0,
          angle_steers_des_mpc := Num 0,
          angle_steers_des_prev := Num 0,
          angle_steers_des_time := 0\<rparr>"

text \<open>
  \<^verbatim>\<open>__init__\<close> (lines 55 to 77), from \<^verbatim>\<open>CP.steerRateCost\<close> and the two stored
  parameters \<^verbatim>\<open>LaneChangeEnabled\<close> and the automatic lane change delay.
\<close>

definition init :: "real \<Rightarrow> bool \<Rightarrow> real \<Rightarrow> PathPlanner" where
  "init steerRateCost LaneChangeEnabled OpkrAutoLanechangedelay =
     setup_mpc
       \<lparr>last_cloudlog_t = 0,
        steer_rate_cost = steerRateCost,
        cur_state = \<lparr>state_x = Num 0, state_y = Num 0, state_psi = Num 0, state_delta = Num 0\<rparr>,
        angle_steers_des = Num 0,
        angle_steers_des_mpc = Num 0,
        angle_steers_des_prev = Num 0,
        angle_steers_des_time = 0,
        solution_invalid_cnt = 0,
        lane_change_enabled = LaneChangeEnabled,
        lane_change_auto_delay = OpkrAutoLanechangedelay,
        lane_change_state = off,
        lane_change_direction = none,
        lane_change_run_timer = 0,
        lane_change_wait_timer = 0,
        lane_change_ll_prob = 1,
        prev_one_blinker = False\<rparr>"

subsection \<open>The lane-change state machine\<close>

text \<open>
  The per-state rules of \<^verbatim>\<open>update\<close> (lines 139 to 187): the else-branch of the global
  override.
\<close>

definition lane_change_transitions :: "PathPlanner \<Rightarrow> inputs \<Rightarrow> PathPlanner" where
  "lane_change_transitions self sm =
     (let v_ego = vEgo sm;
          v_ego_kph = v_ego * 3.61;
          one_blinker = (leftBlinker sm \<noteq> rightBlinker sm);
          below_lane_change_speed = (v_ego < LANE_CHANGE_SPEED_MIN);
          torque_applied = (steeringPressed sm \<and>
            ((steeringTorque sm > 0 \<and> lane_change_direction self = left) \<or>
             (steeringTorque sm < 0 \<and> lane_change_direction self = right)));
          blindspot_detected =
            ((leftBlindspot sm \<and> lane_change_direction self = left) \<or>
             (rightBlindspot sm \<and> lane_change_direction self = right));
          lane_change_prob = LP_l_lane_change_prob sm + LP_r_lane_change_prob sm
      in
        if lane_change_state self = off \<and> one_blinker \<and> \<not> prev_one_blinker self
           \<and> \<not> below_lane_change_speed
        then self\<lparr>lane_change_state := preLaneChange,
                  lane_change_ll_prob := 1,
                  lane_change_wait_timer := 0\<rparr>
        else if lane_change_state self = preLaneChange then
          (let self1 = self\<lparr>lane_change_wait_timer := lane_change_wait_timer self + DT_MDL\<rparr>
           in if \<not> one_blinker \<or> below_lane_change_speed
              then self1\<lparr>lane_change_state := off\<rparr>
              else if \<not> blindspot_detected \<and>
                      (torque_applied \<or>
                       (lane_change_auto_delay self1 \<noteq> 0 \<and>
                        lane_change_wait_timer self1 > lane_change_auto_delay self1))
              then self1\<lparr>lane_change_state := laneChangeStarting\<rparr>
              else self1)
        else if lane_change_state self = laneChangeStarting then
          (let lane_time = interp v_ego_kph [40, 60, 70, 80] [0.5, 1, 1.5, 2];
               self1 = self\<lparr>lane_change_ll_prob :=
                         max (lane_change_ll_prob self - lane_time * DT_MDL) 0\<rparr>
           in if lane_change_prob < 0.02 \<and> lane_change_ll_prob self1 < 0.01
              then self1\<lparr>lane_change_state := laneChangeFinishing\<rparr>
              else self1)
        else if lane_change_state self = laneChangeFinishing then
          (let self1 = self\<lparr>lane_change_ll_prob := min (lane_change_ll_prob self + DT_MDL) 1\<rparr>
           in if one_blinker \<and> lane_change_ll_prob self1 > 0.99
              then self1\<lparr>lane_change_state := laneChangeDone\<rparr>
              else self1)
        else if lane_change_state self = laneChangeDone then
          (if \<not> one_blinker then self\<lparr>lane_change_state := off\<rparr> else self)
        else self)"

text \<open>The condition of the global override (line 135), on the state before the tick.\<close>

definition override :: "PathPlanner \<Rightarrow> inputs \<Rightarrow> bool" where
  "override self sm =
     (\<not> active sm \<or> lane_change_run_timer self > LANE_CHANGE_TIME_MAX
      \<or> \<not> (leftBlinker sm \<noteq> rightBlinker sm) \<or> \<not> lane_change_enabled self)"

text \<open>
  The lane-change logic of \<^verbatim>\<open>update\<close> (lines 126 to 194): the direction latch, the global
  override or the per-state rules, the run timer and the blinker latch.
\<close>

definition update_lane_change :: "PathPlanner \<Rightarrow> inputs \<Rightarrow> PathPlanner" where
  "update_lane_change self sm =
     (let one_blinker = (leftBlinker sm \<noteq> rightBlinker sm);
          self1 = (if leftBlinker sm then self\<lparr>lane_change_direction := left\<rparr>
                   else if rightBlinker sm then self\<lparr>lane_change_direction := right\<rparr>
                   else self);
          self2 = (if override self1 sm
                   then self1\<lparr>lane_change_state := off, lane_change_direction := none\<rparr>
                   else lane_change_transitions self1 sm);
          self3 = (if lane_change_state self2 = off \<or> lane_change_state self2 = preLaneChange
                   then self2\<lparr>lane_change_run_timer := 0\<rparr>
                   else self2\<lparr>lane_change_run_timer := lane_change_run_timer self2 + DT_MDL\<rparr>)
      in self3\<lparr>prev_one_blinker := one_blinker\<rparr>)"

subsection \<open>The solver's result and the authority limiter\<close>

text \<open>
  \<^verbatim>\<open>delta_desired\<close> and \<^verbatim>\<open>rate_desired\<close> (lines 213 to 218). Reading past the end of
  a horizon raises, and so does a zero \<^verbatim>\<open>VM.sR\<close>.
\<close>

definition update_desired :: "inputs \<Rightarrow> error + (pyfloat \<times> pyfloat)" where
  "update_desired sm =
     (if active sm then
        bind_res (index (sol_delta (mpc_solution sm)) 1) (\<lambda>delta_desired.
        bind_res (index (sol_rate (mpc_solution sm)) 0) (\<lambda>rate0.
          Inr (delta_desired, fdegrees (fmul rate0 (Num (VM_sR sm))))))
      else
        bind_res (pydiv (radians (steeringAngle sm - angleOffset sm)) (VM_sR sm)) (\<lambda>d.
          Inr (Num d, Num 0)))"

text \<open>
  The authority limiter (lines 222 to 241), from the angle \<^verbatim>\<open>org_angle_steers_des\<close>
  to the final \<^verbatim>\<open>angle_steers_des_mpc\<close>.
\<close>

definition update_limiter :: "inputs \<Rightarrow> pyfloat \<Rightarrow> pyfloat" where
  "update_limiter sm org_angle_steers_des =
     (let v_ego_kph = vEgo sm * 3.61;
          angle_steers = steeringAngle sm
      in
        if steeringPressed sm then
          (let delta_steer = fsub org_angle_steers_des (Num angle_steers);
               limit_steers = interp (steeringTorque sm) [-450, 0, 450] [5, 0, 5]
           in if steeringTorque sm < 0 then
                (if fgt delta_steer (Num 0)
                 then limit_ctrl org_angle_steers_des (Num limit_steers) (Num angle_steers)
                 else org_angle_steers_des)
              else if steeringTorque sm > 0 then
                (if flt delta_steer (Num 0)
                 then limit_ctrl org_angle_steers_des (Num limit_steers) (Num angle_steers)
                 else org_angle_steers_des)
              else org_angle_steers_des)
        else if v_ego_kph < 30 then
          (let limit_steers = interp v_ego_kph [5, 15, 30] [1, 3, 5]
           in limit_ctrl org_angle_steers_des (Num limit_steers) (Num angle_steers))
        else org_angle_steers_des)"

text \<open>\<^verbatim>\<open>mpc_nans\<close> (line 266).\<close>

definition mpc_nans :: "inputs \<Rightarrow> bool" where
  "mpc_nans sm = list_ex isnan (sol_delta (mpc_solution sm))"

text \<open>The test of line 276: the solution of this tick is bad.\<close>

definition solution_bad :: "inputs \<Rightarrow> bool" where
  "solution_bad sm = (fgt (sol_cost (mpc_solution sm)) (Num 20000) \<or> mpc_nans sm)"

subsection \<open>One tick\<close>

text \<open>
  \<^verbatim>\<open>PathPlanner.update\<close> (lines 104 to 310). The result is the planner after the tick
  and what the tick sent, or the exception that ended the call.
\<close>

definition update :: "PathPlanner \<Rightarrow> inputs \<Rightarrow> error + (PathPlanner \<times> outputs)" where
  "update self sm =
     (let v_ego = vEgo sm;
          angle_steers = steeringAngle sm;
          angle_offset = angleOffset sm;
          self1 = self\<lparr>angle_steers_des_prev := angle_steers_des_mpc self\<rparr>;
          self2 = update_lane_change self1 sm;
          desire1 = DESIRES (lane_change_direction self2) (lane_change_state self2);
          fade = (desire1 = laneChangeRight \<or> desire1 = laneChangeLeft);
          l_prob = (if fade then LP_l_prob sm * lane_change_ll_prob self2 else LP_l_prob sm);
          r_prob = (if fade then LP_r_prob sm * lane_change_ll_prob self2 else LP_r_prob sm)
      in
        bind_res (calc_states_after_delay (cur_state self2) v_ego (angle_steers - angle_offset)
                    (VM_curvature_factor sm) (VM_sR sm) (steerActuatorDelay sm)) (\<lambda>cur_state1.
        bind_res (update_desired sm) (\<lambda>(delta_desired, rate_desired).
          (let org_angle_steers_des =
                 fadd (fdegrees (fmul delta_desired (Num (VM_sR sm)))) (Num angle_offset);
               angle_limited = update_limiter sm org_angle_steers_des;
               t = sec_since_boot sm;
               warn = (mpc_nans sm \<and> t > last_cloudlog_t self2 + 5)
           in
             bind_res (if mpc_nans sm
                       then bind_res (pydiv (radians (angle_steers - angle_offset)) (VM_sR sm))
                              (\<lambda>d. Inr (Num d))
                       else Inr delta_desired) (\<lambda>delta_end.
               (let cnt = (if solution_bad sm then solution_invalid_cnt self2 + 1 else 0);
                    plan_solution_valid = (cnt < 3);
                    self3 = self2\<lparr>cur_state := cur_state1\<lparr>state_delta := delta_end\<rparr>,
                                  angle_steers_des_mpc := angle_limited,
                                  last_cloudlog_t := (if warn then t else last_cloudlog_t self2),
                                  solution_invalid_cnt := cnt\<rparr>
                in Inr (self3,
                     \<lparr>plan_send =
                        \<lparr>plan_valid = all_alive_and_valid sm,
                         laneWidth = LP_lane_width sm,
                         dPoly = LP_d_poly sm,
                         lPoly = LP_l_poly sm,
                         lProb = l_prob,
                         rPoly = LP_r_poly sm,
                         rProb = r_prob,
                         angleSteers = angle_limited,
                         rateSteers = rate_desired,
                         plan_angleOffset = angleOffset sm,
                         mpcSolutionValid = plan_solution_valid,
                         paramsValid = liveParameters_valid sm,
                         desire = desire1,
                         laneChangeState = lane_change_state self2,
                         laneChangeDirection = lane_change_direction self2\<rparr>,
                      liveMpc = (if LOG_MPC sm then Some (mpc_solution sm) else None),
                      libmpc_init_called = mpc_nans sm,
                      cloudlog_warning = warn\<rparr>)))))))"

text \<open>A run of ticks; an exception ends the run.\<close>

fun run :: "PathPlanner \<Rightarrow> inputs list \<Rightarrow> error + PathPlanner" where
  "run self [] = Inr self"
| "run self (sm # sms) = bind_res (update self sm) (\<lambda>(self1, out). run self1 sms)"

text \<open>A float is a number of the closed interval from \<open>lo\<close> to \<open>hi\<close>.\<close>

fun in_window :: "pyfloat \<Rightarrow> real \<Rightarrow> real \<Rightarrow> bool" where
  "in_window (Num r) lo hi = (lo \<le> r \<and> r \<le> hi)"
| "in_window NaN lo hi = False"

subsection \<open>Inputs for the examples\<close>

text \<open>
  A tick of a parked car: nothing engaged, no blinker, a solver result of zeros. The
  examples change a few of its fields.
\<close>

definition parked :: inputs where
  "parked =
     \<lparr>vEgo = 0, steeringAngle = 0, steeringTorque = 0, steeringPressed = False,
      leftBlinker = False, rightBlinker = False, leftBlindspot = False, rightBlindspot = False,
      active = False, angleOffset = 0, stiffnessFactor = 1, steerRatio = 15,
      liveParameters_valid = True, all_alive_and_valid = True,
      LP_l_prob = 1, LP_r_prob = 1, LP_l_lane_change_prob = 0, LP_r_lane_change_prob = 0,
      LP_lane_width = 3, LP_l_poly = [0, 0, 0, 0], LP_r_poly = [0, 0, 0, 0],
      LP_d_poly = [0, 0, 0, 0], VM_sR = 15, VM_curvature_factor = 1,
      steerActuatorDelay = 0,
      mpc_solution = \<lparr>sol_x = [], sol_y = [], sol_psi = [], sol_delta = [Num 0, Num 0],
                       sol_rate = [Num 0], sol_cost = Num 0\<rparr>,
      sec_since_boot = 0, LOG_MPC = False\<rparr>"

text \<open>
  Engaged with the left blinker on: at standstill, below the minimum speed of a lane
  change, and at 30 m/s, above it.
\<close>

definition blinker_below_speed :: inputs where
  "blinker_below_speed = parked\<lparr>active := True, leftBlinker := True\<rparr>"

definition blinker_at_speed :: inputs where
  "blinker_at_speed = parked\<lparr>active := True, leftBlinker := True, vEgo := 30\<rparr>"

text \<open>
  Engaged ticks with a bad solution: one whose horizons are NaN, and one with finite
  horizons and a cost of 30000.
\<close>

definition two_nans :: log_t where
  "two_nans = \<lparr>sol_x = [], sol_y = [], sol_psi = [], sol_delta = [NaN, NaN],
                sol_rate = [NaN], sol_cost = Num 0\<rparr>"

definition nan_tick :: inputs where
  "nan_tick = parked\<lparr>active := True, mpc_solution := two_nans\<rparr>"

definition costly_tick :: inputs where
  "costly_tick = parked\<lparr>active := True,
     mpc_solution := (mpc_solution parked)\<lparr>sol_cost := Num 30000\<rparr>\<rparr>"

text \<open>
  Engaged at 30 m/s with a solution whose next delta is 0.01 rad, which at a steer ratio
  of 15 is about 8.6 degrees at the steering wheel; the same with the driver pulling
  right at full torque; and the same at standstill.
\<close>

definition left_turn :: log_t where
  "left_turn = \<lparr>sol_x = [], sol_y = [], sol_psi = [],
                 sol_delta = [Num 0, Num (1 / 100)],
                 sol_rate = [Num 0], sol_cost = Num 0\<rparr>"

definition cruise :: inputs where
  "cruise = parked\<lparr>active := True, vEgo := 30, mpc_solution := left_turn\<rparr>"

definition driver_fight :: inputs where
  "driver_fight = cruise\<lparr>steeringPressed := True, steeringTorque := - 450\<rparr>"

definition crawl :: inputs where
  "crawl = cruise\<lparr>vEgo := 0\<rparr>"

section \<open>Properties\<close>

subsection \<open>Results and errors\<close>

lemma bind_res_Inl [simp]: "bind_res (Inl e) f = Inl e"
  by (simp add: bind_res_def)

lemma bind_res_Inr [simp]: "bind_res (Inr v) f = f v"
  by (simp add: bind_res_def)

lemma bind_res_eq_Inr: "bind_res m f = Inr r \<longleftrightarrow> (\<exists>v. m = Inr v \<and> f v = Inr r)"
  by (cases m) simp_all

lemma pydiv_eq_Inr: "pydiv a b = Inr q \<longleftrightarrow> b \<noteq> 0 \<and> q = a / b"
  by (auto simp: pydiv_def)

text \<open>The interpolation is unfolded only where a table is evaluated.\<close>

declare interp.simps [simp del]

subsection \<open>What a tick leaves alone, and what it returns\<close>

lemma lane_change_transitions_frame:
  "cur_state (lane_change_transitions s sm) = cur_state s"
  "last_cloudlog_t (lane_change_transitions s sm) = last_cloudlog_t s"
  "solution_invalid_cnt (lane_change_transitions s sm) = solution_invalid_cnt s"
  "lane_change_enabled (lane_change_transitions s sm) = lane_change_enabled s"
  "lane_change_auto_delay (lane_change_transitions s sm) = lane_change_auto_delay s"
  "lane_change_direction (lane_change_transitions s sm) = lane_change_direction s"
  "lane_change_run_timer (lane_change_transitions s sm) = lane_change_run_timer s"
  "prev_one_blinker (lane_change_transitions s sm) = prev_one_blinker s"
  by (simp_all add: lane_change_transitions_def Let_def)

lemma update_lane_change_frame:
  "cur_state (update_lane_change s sm) = cur_state s"
  "last_cloudlog_t (update_lane_change s sm) = last_cloudlog_t s"
  "solution_invalid_cnt (update_lane_change s sm) = solution_invalid_cnt s"
  "lane_change_enabled (update_lane_change s sm) = lane_change_enabled s"
  "lane_change_auto_delay (update_lane_change s sm) = lane_change_auto_delay s"
  "prev_one_blinker (update_lane_change s sm) = (leftBlinker sm \<noteq> rightBlinker sm)"
  by (simp_all add: update_lane_change_def Let_def lane_change_transitions_frame)


lemma update_InrD:
  assumes "update self sm = Inr (self', out)"
  shows "\<exists>cs dd rd.
      calc_states_after_delay (cur_state self) (vEgo sm) (steeringAngle sm - angleOffset sm)
        (VM_curvature_factor sm) (VM_sR sm) (steerActuatorDelay sm) = Inr cs
    \<and> update_desired sm = Inr (dd, rd)
    \<and> VM_sR sm \<noteq> 0
    \<and> self' = (update_lane_change (self\<lparr>angle_steers_des_prev := angle_steers_des_mpc self\<rparr>) sm)
        \<lparr>cur_state := cs\<lparr>state_delta := (if mpc_nans sm then Num (radians (steeringAngle sm - angleOffset sm) / VM_sR sm) else dd)\<rparr>,
         angle_steers_des_mpc := update_limiter sm (fadd (fdegrees (fmul dd (Num (VM_sR sm)))) (Num (angleOffset sm))),
         last_cloudlog_t := (if mpc_nans sm \<and> sec_since_boot sm > last_cloudlog_t self + 5 then sec_since_boot sm else last_cloudlog_t self),
         solution_invalid_cnt := (if solution_bad sm then solution_invalid_cnt self + 1 else 0)\<rparr>
    \<and> angleSteers (plan_send out) = update_limiter sm (fadd (fdegrees (fmul dd (Num (VM_sR sm)))) (Num (angleOffset sm)))
    \<and> rateSteers (plan_send out) = rd
    \<and> mpcSolutionValid (plan_send out) = ((if solution_bad sm then solution_invalid_cnt self + 1 else 0) < 3)
    \<and> laneChangeState (plan_send out) = lane_change_state self'
    \<and> laneChangeDirection (plan_send out) = lane_change_direction self'
    \<and> desire (plan_send out) = DESIRES (lane_change_direction self') (lane_change_state self')"
proof -
  from assms obtain cs dd rd de where
    cs: "calc_states_after_delay (cur_state self) (vEgo sm) (steeringAngle sm - angleOffset sm)
        (VM_curvature_factor sm) (VM_sR sm) (steerActuatorDelay sm) = Inr cs"
    and d: "update_desired sm = Inr (dd, rd)"
    and de: "(if mpc_nans sm
          then bind_res (pydiv (radians (steeringAngle sm - angleOffset sm)) (VM_sR sm))
                (\<lambda>d. Inr (Num d))
          else Inr dd) = Inr de"
    and rest: "self' = (update_lane_change (self\<lparr>angle_steers_des_prev := angle_steers_des_mpc self\<rparr>) sm)
        \<lparr>cur_state := cs\<lparr>state_delta := de\<rparr>,
         angle_steers_des_mpc := update_limiter sm (fadd (fdegrees (fmul dd (Num (VM_sR sm)))) (Num (angleOffset sm))),
         last_cloudlog_t := (if mpc_nans sm \<and> sec_since_boot sm > last_cloudlog_t self + 5 then sec_since_boot sm else last_cloudlog_t self),
         solution_invalid_cnt := (if solution_bad sm then solution_invalid_cnt self + 1 else 0)\<rparr>"
      "angleSteers (plan_send out) = update_limiter sm (fadd (fdegrees (fmul dd (Num (VM_sR sm)))) (Num (angleOffset sm)))"
      "rateSteers (plan_send out) = rd"
      "mpcSolutionValid (plan_send out) = ((if solution_bad sm then solution_invalid_cnt self + 1 else 0) < 3)"
      "laneChangeState (plan_send out) = lane_change_state (update_lane_change (self\<lparr>angle_steers_des_prev := angle_steers_des_mpc self\<rparr>) sm)"
      "laneChangeDirection (plan_send out) = lane_change_direction (update_lane_change (self\<lparr>angle_steers_des_prev := angle_steers_des_mpc self\<rparr>) sm)"
      "desire (plan_send out) = DESIRES (lane_change_direction (update_lane_change (self\<lparr>angle_steers_des_prev := angle_steers_des_mpc self\<rparr>) sm))
          (lane_change_state (update_lane_change (self\<lparr>angle_steers_des_prev := angle_steers_des_mpc self\<rparr>) sm))"
    unfolding update_def Let_def
    by (clarsimp simp: bind_res_eq_Inr update_lane_change_frame split del: if_split cong: if_cong)
  from cs have sr: "VM_sR sm \<noteq> 0"
    by (auto simp: calc_states_after_delay_def bind_res_eq_Inr pydiv_eq_Inr)
  with de have "de = (if mpc_nans sm then Num (radians (steeringAngle sm - angleOffset sm) / VM_sR sm) else dd)"
    by (auto simp: pydiv_def split: if_splits)
  with cs d sr rest show ?thesis by simp
qed

subsection \<open>The lane-change logic of one tick\<close>

lemma override_direction [simp]:
  "override (s\<lparr>lane_change_direction := d\<rparr>) sm = override s sm"
  by (simp add: override_def)

lemma override_prev [simp]:
  "override (s\<lparr>angle_steers_des_prev := v\<rparr>) sm = override s sm"
  by (simp add: override_def)

lemma update_lane_change_override:
  assumes "override s sm"
  shows "lane_change_state (update_lane_change s sm) = off"
    and "lane_change_direction (update_lane_change s sm) = none"
    and "lane_change_run_timer (update_lane_change s sm) = 0"
    and "lane_change_ll_prob (update_lane_change s sm) = lane_change_ll_prob s"
    and "lane_change_wait_timer (update_lane_change s sm) = lane_change_wait_timer s"
  using assms by (simp_all add: update_lane_change_def Let_def)

lemma update_lane_change_ll_prob:
  "lane_change_ll_prob (update_lane_change s sm) =
     (if override s sm then lane_change_ll_prob s
      else if lane_change_state s = off \<and> (leftBlinker sm \<noteq> rightBlinker sm)
              \<and> \<not> prev_one_blinker s \<and> \<not> vEgo sm < LANE_CHANGE_SPEED_MIN then 1
      else if lane_change_state s = laneChangeStarting
        then max (lane_change_ll_prob s
                   - interp (vEgo sm * 3.61) [40, 60, 70, 80] [0.5, 1, 1.5, 2] * DT_MDL) 0
      else if lane_change_state s = laneChangeFinishing
        then min (lane_change_ll_prob s + DT_MDL) 1
      else lane_change_ll_prob s)"
  by (simp add: update_lane_change_def lane_change_transitions_def Let_def)

lemma update_lane_change_off:
  assumes "lane_change_state (update_lane_change s sm) = off"
  shows "lane_change_run_timer (update_lane_change s sm) = 0"
    and "lane_change_direction (update_lane_change s sm) =
           (if override s sm then none else if leftBlinker sm then left else right)"
  using assms
  by (auto simp: update_lane_change_def Let_def lane_change_transitions_frame override_def)

lemma update_lane_change_stays_off:
  assumes "lane_change_state s = off" "prev_one_blinker s"
  shows "lane_change_state (update_lane_change s sm) = off"
  using assms by (simp add: update_lane_change_def lane_change_transitions_def Let_def)

lemma update_lane_change_leaves_off:
  assumes "lane_change_state s = off" "lane_change_state (update_lane_change s sm) \<noteq> off"
  shows "(leftBlinker sm \<noteq> rightBlinker sm) \<and> \<not> prev_one_blinker s
       \<and> \<not> vEgo sm < LANE_CHANGE_SPEED_MIN \<and> \<not> override s sm
       \<and> lane_change_state (update_lane_change s sm) = preLaneChange"
  using assms
  by (auto simp: update_lane_change_def lane_change_transitions_def Let_def split: if_splits)

lemma update_returns:
  assumes "VM_sR sm \<noteq> 0"
    and "active sm \<Longrightarrow> 2 \<le> length (sol_delta (mpc_solution sm)) \<and> 1 \<le> length (sol_rate (mpc_solution sm))"
  shows "\<exists>self' out. update self sm = Inr (self', out)"
  using assms unfolding update_def Let_def
  by (cases "active sm")
     (auto simp: calc_states_after_delay_def pydiv_def update_desired_def index_def)

subsection \<open>The limiter\<close>

text \<open>
  C3, as the code has it. For finite \<open>val\<close>, \<open>offset\<close> and a finite \<open>limit\<close> that is not
  negative, \<open>limit_ctrl val limit offset\<close> is \<open>val\<close> clamped into the interval from
  \<open>offset - limit\<close> to \<open>offset + limit\<close>: it is the upper bound for a value above the
  interval, the lower bound for a value below it and the value itself otherwise, that is
  \<open>max (offset - limit) (min val (offset + limit))\<close>. So it lies in the interval, and it is
  \<open>val\<close> exactly when \<open>val\<close> already lies there. The function is pure: it reads its three
  arguments only.
\<close>

theorem limit_ctrl_clamps:
  assumes "0 \<le> lmt"
  shows "limit_ctrl (Num v) (Num lmt) (Num ofs) = Num (max (ofs - lmt) (min v (ofs + lmt)))
       \<and> limit_ctrl (Num v) (Num lmt) (Num ofs)
           = (if v > ofs + lmt then Num (ofs + lmt)
              else if v < ofs - lmt then Num (ofs - lmt) else Num v)
       \<and> in_window (limit_ctrl (Num v) (Num lmt) (Num ofs)) (ofs - lmt) (ofs + lmt)
       \<and> (limit_ctrl (Num v) (Num lmt) (Num ofs) = Num v \<longleftrightarrow> ofs - lmt \<le> v \<and> v \<le> ofs + lmt)"
  using assms by (auto simp: limit_ctrl_def Let_def)

theorem limit_ctrl_clamps_witness:
  "(0::real) \<le> 5
     \<and> limit_ctrl (Num 10) (Num 5) (Num 0) = Num 5
     \<and> limit_ctrl (Num (- 9)) (Num 5) (Num 0) = Num (- 5)
     \<and> limit_ctrl (Num 3) (Num 5) (Num 0) = Num 3
     \<and> in_window (limit_ctrl (Num 10) (Num 5) (Num 0)) (0 - 5) (0 + 5)"
  using limit_ctrl_clamps [of 5 10 0] limit_ctrl_clamps [of 5 "- 9" 0]
    limit_ctrl_clamps [of 5 3 0]
  by simp

text \<open>
  With a negative limit the interval is empty, and the result is outside it: at value 0,
  limit -1 and offset 0 the function returns -1, which is not in the interval from 1 to -1.
\<close>

theorem limit_ctrl_negative_limit_counterexample:
  "limit_ctrl (Num 0) (Num (- 1)) (Num 0) = Num (- 1)
   \<and> \<not> in_window (limit_ctrl (Num 0) (Num (- 1)) (Num 0)) (0 - (- 1)) (0 + (- 1))"
  by (simp add: limit_ctrl_def Let_def)

subsection \<open>The delay compensator\<close>

text \<open>
  C9, as the code has it. For every state, speed, steering angle, curvature factor and
  delay, and every steer ratio other than zero, \<open>calc_states_after_delay\<close> returns the
  state with \<open>x\<close> set to \<open>v_ego * delay\<close> and \<open>psi\<close> set to
  \<open>v_ego * curvature_factor * radians steer_angle / steer_ratio * delay\<close>, and with \<open>y\<close>
  and \<open>delta\<close> as they were. With a steer ratio of zero the call raises
  \<^verbatim>\<open>ZeroDivisionError\<close>, whatever the other arguments are.
\<close>

theorem calc_states_after_delay_sets_x_psi:
  "(steer_ratio \<noteq> 0 \<longrightarrow>
      (\<exists>states1.
           calc_states_after_delay states v_ego steer_angle curvature_factor steer_ratio delay
             = Inr states1
         \<and> state_x states1 = Num (v_ego * delay)
         \<and> state_psi states1 =
             Num (v_ego * curvature_factor * radians steer_angle / steer_ratio * delay)
         \<and> state_y states1 = state_y states
         \<and> state_delta states1 = state_delta states))
   \<and> calc_states_after_delay states v_ego steer_angle curvature_factor 0 delay
       = Inl ZeroDivisionError"
  by (simp add: calc_states_after_delay_def pydiv_def)

theorem calc_states_after_delay_sets_x_psi_witness:
  "(2::real) \<noteq> 0
   \<and> calc_states_after_delay
       \<lparr>state_x = Num 7, state_y = Num 8, state_psi = Num 9, state_delta = NaN\<rparr> 10 90 3 2 (1/2)
     = Inr \<lparr>state_x = Num 5, state_y = Num 8, state_psi = Num (15 * pi / 4), state_delta = NaN\<rparr>
   \<and> calc_states_after_delay
       \<lparr>state_x = Num 7, state_y = Num 8, state_psi = Num 9, state_delta = NaN\<rparr> 10 90 3 0 (1/2)
     = Inl ZeroDivisionError"
  using calc_states_after_delay_sets_x_psi
    [of 2 "\<lparr>state_x = Num 7, state_y = Num 8, state_psi = Num 9, state_delta = NaN\<rparr>" 10 90 3 "1/2"]
  by (auto simp: radians_def)

text \<open>
  With a steer ratio of zero the division of line 50 raises \<^verbatim>\<open>ZeroDivisionError\<close>, and
  the function returns no state.
\<close>

theorem calc_states_after_delay_zero_ratio_counterexample:
  "calc_states_after_delay
     \<lparr>state_x = Num 0, state_y = Num 0, state_psi = Num 0, state_delta = Num 0\<rparr> 1 1 1 0 1
   = Inl ZeroDivisionError"
  by (simp add: calc_states_after_delay_def pydiv_def)

subsection \<open>The global override\<close>

text \<open>
  C8. On a tick on which the controls are not active, or the run timer before the tick
  is above 10 s, or not exactly one blinker is on, or lane changes are not enabled, the
  state after the tick is Off and the direction None, in the planner and in the message;
  the run timer is 0, and no per-state rule has run: the wait timer and the lane-line
  probability are as they were.
\<close>

theorem global_override_forces_off:
  assumes "\<not> active sm \<or> lane_change_run_timer self > 10
           \<or> \<not> (leftBlinker sm \<noteq> rightBlinker sm) \<or> \<not> lane_change_enabled self"
    and "update self sm = Inr (self', out)"
  shows "lane_change_state self' = off \<and> lane_change_direction self' = none
       \<and> laneChangeState (plan_send out) = off \<and> laneChangeDirection (plan_send out) = none
       \<and> lane_change_ll_prob self' = lane_change_ll_prob self
       \<and> lane_change_wait_timer self' = lane_change_wait_timer self
       \<and> lane_change_run_timer self' = 0"
proof -
  let ?s = "self\<lparr>angle_steers_des_prev := angle_steers_des_mpc self\<rparr>"
  from assms(1) have "override ?s sm"
    by (simp add: override_def LANE_CHANGE_TIME_MAX_def)
  from update_lane_change_override [OF this] update_InrD [OF assms(2)]
  show ?thesis by auto
qed

theorem global_override_forces_off_witness:
  "\<not> active parked
   \<and> \<not> isl (update ((init 1 True 0)\<lparr>lane_change_state := laneChangeStarting,
                      lane_change_direction := left, lane_change_ll_prob := 1/2\<rparr>) parked)
   \<and> lane_change_state (fst (projr (update ((init 1 True 0)\<lparr>lane_change_state := laneChangeStarting,
                      lane_change_direction := left, lane_change_ll_prob := 1/2\<rparr>) parked))) = off
   \<and> lane_change_direction (fst (projr (update ((init 1 True 0)\<lparr>lane_change_state := laneChangeStarting,
                      lane_change_direction := left, lane_change_ll_prob := 1/2\<rparr>) parked))) = none
   \<and> lane_change_ll_prob (fst (projr (update ((init 1 True 0)\<lparr>lane_change_state := laneChangeStarting,
                      lane_change_direction := left, lane_change_ll_prob := 1/2\<rparr>) parked))) = 1/2"
proof -
  let ?s = "(init 1 True 0)\<lparr>lane_change_state := laneChangeStarting,
                      lane_change_direction := left, lane_change_ll_prob := 1/2\<rparr>"
  have na: "\<not> active parked" by (simp add: parked_def)
  obtain self' out where u: "update ?s parked = Inr (self', out)"
    using update_returns [of parked ?s] by (auto simp: parked_def)
  from global_override_forces_off [OF _ u] na u show ?thesis by simp
qed

subsection \<open>Runs of ticks\<close>

lemma run_returns:
  assumes "\<forall>sm\<in>set sms. VM_sR sm \<noteq> 0
             \<and> 2 \<le> length (sol_delta (mpc_solution sm)) \<and> 1 \<le> length (sol_rate (mpc_solution sm))"
  shows "\<exists>self'. run self sms = Inr self'"
  using assms
proof (induction sms arbitrary: self)
  case Nil
  then show ?case by simp
next
  case (Cons sm sms)
  then obtain self1 out where "update self sm = Inr (self1, out)"
    using update_returns [of sm self] by auto
  moreover from Cons obtain self' where "run self1 sms = Inr self'" by auto
  ultimately show ?case by simp
qed

lemma lane_time_bounds:
  "1/2 \<le> interp v [40, 60, 70, 80] [0.5, 1, 1.5, 2]"
  "interp v [40, 60, 70, 80] [0.5, 1, 1.5, 2] \<le> 2"
  by (auto simp: interp.simps field_simps)

lemma update_ll_prob_bounds:
  assumes "update self sm = Inr (self', out)"
    and "0 \<le> lane_change_ll_prob self" "lane_change_ll_prob self \<le> 1"
  shows "0 \<le> lane_change_ll_prob self' \<and> lane_change_ll_prob self' \<le> 1"
proof -
  let ?r = "interp (vEgo sm * 3.61) [40, 60, 70, 80] [0.5, 1, 1.5, 2]"
  have "0 \<le> ?r * DT_MDL"
    using lane_time_bounds(1) [of "vEgo sm * 3.61"] by (simp add: DT_MDL_def)
  with assms(2,3) update_InrD [OF assms(1)] show ?thesis
    by (auto simp: update_lane_change_ll_prob DT_MDL_def)
qed

lemma run_ll_prob_bounds:
  assumes "run self sms = Inr self'"
    and "0 \<le> lane_change_ll_prob self" "lane_change_ll_prob self \<le> 1"
  shows "0 \<le> lane_change_ll_prob self' \<and> lane_change_ll_prob self' \<le> 1"
  using assms
proof (induction sms arbitrary: self)
  case Nil
  then show ?case by simp
next
  case (Cons sm sms)
  from Cons.prems(1) obtain self1 out where
    u: "update self sm = Inr (self1, out)" and r: "run self1 sms = Inr self'"
    by (auto simp: bind_res_eq_Inr)
  from update_ll_prob_bounds [OF u Cons.prems(2,3)] Cons.IH [OF r] show ?case by simp
qed

lemma run_stays_off:
  assumes "run self sms = Inr self'"
    and "lane_change_state self = off" "prev_one_blinker self"
    and "\<forall>sm\<in>set sms. leftBlinker sm \<noteq> rightBlinker sm"
  shows "lane_change_state self' = off \<and> prev_one_blinker self'"
  using assms
proof (induction sms arbitrary: self)
  case Nil
  then show ?case by simp
next
  case (Cons sm sms)
  from Cons.prems(1) obtain self1 out where
    u: "update self sm = Inr (self1, out)" and r: "run self1 sms = Inr self'"
    by (auto simp: bind_res_eq_Inr)
  let ?s = "self\<lparr>angle_steers_des_prev := angle_steers_des_mpc self\<rparr>"
  have "lane_change_state (update_lane_change ?s sm) = off"
    using Cons.prems(2,3) by (intro update_lane_change_stays_off) simp_all
  moreover have "prev_one_blinker (update_lane_change ?s sm)"
    using Cons.prems(4) by (simp add: update_lane_change_frame)
  ultimately have "lane_change_state self1 = off" "prev_one_blinker self1"
    using update_InrD [OF u] by auto
  with Cons.IH [OF r] Cons.prems(4) show ?case by simp
qed

subsection \<open>The state Off\<close>

text \<open>
  C1, as the code has it. After a tick that leaves the lane-change state Off, the run
  timer is 0 and the desire sent is none. The direction sent is the planner's; it is None
  when the global override held on that tick (controls not active, run timer above 10 s,
  not exactly one blinker, or lane changes not enabled), and otherwise it is the
  direction of the one blinker that is on.
\<close>

theorem off_means_timer_zero:
  assumes "update self sm = Inr (self', out)"
    and "lane_change_state self' = off"
  shows "lane_change_run_timer self' = 0
       \<and> desire (plan_send out) = Desire_none
       \<and> laneChangeDirection (plan_send out) = lane_change_direction self'
       \<and> lane_change_direction self' =
           (if \<not> active sm \<or> lane_change_run_timer self > 10
               \<or> \<not> (leftBlinker sm \<noteq> rightBlinker sm) \<or> \<not> lane_change_enabled self
            then none
            else if leftBlinker sm then left else right)"
proof -
  let ?s = "self\<lparr>angle_steers_des_prev := angle_steers_des_mpc self\<rparr>"
  from update_InrD [OF assms(1)] assms(2)
  have st: "lane_change_state (update_lane_change ?s sm) = off"
    and eq: "lane_change_run_timer self' = lane_change_run_timer (update_lane_change ?s sm)"
      "lane_change_direction self' = lane_change_direction (update_lane_change ?s sm)"
      "laneChangeDirection (plan_send out) = lane_change_direction self'"
      "desire (plan_send out) = DESIRES (lane_change_direction self') off"
    by auto
  have "DESIRES (lane_change_direction self') off = Desire_none"
    by (cases "lane_change_direction self'") simp_all
  with update_lane_change_off [OF st] eq show ?thesis
    by (simp add: override_def LANE_CHANGE_TIME_MAX_def)
qed

theorem off_means_timer_zero_witness:
  "\<not> isl (update ((init 1 True 0)\<lparr>lane_change_state := laneChangeDone,
                      lane_change_direction := left, lane_change_run_timer := 3\<rparr>) parked)
   \<and> lane_change_state (fst (projr (update ((init 1 True 0)\<lparr>lane_change_state := laneChangeDone,
                      lane_change_direction := left, lane_change_run_timer := 3\<rparr>) parked))) = off
   \<and> lane_change_run_timer (fst (projr (update ((init 1 True 0)\<lparr>lane_change_state := laneChangeDone,
                      lane_change_direction := left, lane_change_run_timer := 3\<rparr>) parked))) = 0
   \<and> lane_change_direction (fst (projr (update ((init 1 True 0)\<lparr>lane_change_state := laneChangeDone,
                      lane_change_direction := left, lane_change_run_timer := 3\<rparr>) parked))) = none"
proof -
  let ?s = "(init 1 True 0)\<lparr>lane_change_state := laneChangeDone,
                      lane_change_direction := left, lane_change_run_timer := 3\<rparr>"
  obtain self' out where u: "update ?s parked = Inr (self', out)"
    using update_returns [of parked ?s] by (auto simp: parked_def)
  have o: "override (?s\<lparr>angle_steers_des_prev := angle_steers_des_mpc ?s\<rparr>) parked"
    by (simp add: override_def parked_def)
  have st: "lane_change_state self' = off"
    using update_InrD [OF u] update_lane_change_override(1) [OF o] by auto
  from off_means_timer_zero [OF u st] u st show ?thesis
    by (simp add: parked_def)
qed

text \<open>
  Off with a direction: engaged, lane changes enabled, the left blinker on at standstill.
  The override does not hold, the rule of Off does not fire below the minimum speed, and
  the direction latched from the blinker stays: the message has the state Off and the
  direction left.
\<close>

theorem off_with_direction_counterexample:
  "\<not> isl (update (init 1 True 0) blinker_below_speed)
   \<and> lane_change_state (fst (projr (update (init 1 True 0) blinker_below_speed))) = off
   \<and> lane_change_direction (fst (projr (update (init 1 True 0) blinker_below_speed))) = left
   \<and> laneChangeState (plan_send (snd (projr (update (init 1 True 0) blinker_below_speed)))) = off
   \<and> laneChangeDirection (plan_send (snd (projr (update (init 1 True 0) blinker_below_speed)))) = left"
proof -
  let ?s = "init 1 True 0"
  obtain self' out where u: "update ?s blinker_below_speed = Inr (self', out)"
    using update_returns [of blinker_below_speed ?s]
    by (auto simp: blinker_below_speed_def parked_def)
  have "lane_change_state (update_lane_change (?s\<lparr>angle_steers_des_prev := angle_steers_des_mpc ?s\<rparr>) blinker_below_speed) = off"
    "lane_change_direction (update_lane_change (?s\<lparr>angle_steers_des_prev := angle_steers_des_mpc ?s\<rparr>) blinker_below_speed) = left"
    by (simp_all add: update_lane_change_def lane_change_transitions_def override_def Let_def
          init_def setup_mpc_def blinker_below_speed_def parked_def
          LANE_CHANGE_SPEED_MIN_def KPH_TO_MS_def LANE_CHANGE_TIME_MAX_def)
  with update_InrD [OF u] u show ?thesis by auto
qed

subsection \<open>The lane-line probability\<close>

text \<open>
  C7. \<open>lane_change_ll_prob\<close> is 1 after construction, and after every run of ticks from
  construction it lies between 0 and 1. One tick leaves it as it was when the global
  override holds; otherwise it resets it to 1 on entering PreLaneChange from Off, lowers
  it in Starting by the interpolated rate times \<open>DT_MDL\<close> with a floor of 0, raises it in
  Finishing by \<open>DT_MDL\<close> with a ceiling of 1, and leaves it as it was in every other
  case.
\<close>

theorem ll_prob_in_unit_interval:
  "lane_change_ll_prob (init steerRateCost enabled auto_delay) = 1
   \<and> (run (init steerRateCost enabled auto_delay) sms = Inr self1 \<longrightarrow>
        0 \<le> lane_change_ll_prob self1 \<and> lane_change_ll_prob self1 \<le> 1)
   \<and> (update self sm = Inr (self', out) \<longrightarrow>
        lane_change_ll_prob self' =
          (if \<not> active sm \<or> lane_change_run_timer self > 10
              \<or> \<not> (leftBlinker sm \<noteq> rightBlinker sm) \<or> \<not> lane_change_enabled self
           then lane_change_ll_prob self
           else if lane_change_state self = off \<and> \<not> prev_one_blinker self
                   \<and> \<not> vEgo sm < LANE_CHANGE_SPEED_MIN
           then 1
           else if lane_change_state self = laneChangeStarting
           then max (lane_change_ll_prob self
                      - interp (vEgo sm * 3.61) [40, 60, 70, 80] [0.5, 1, 1.5, 2] * DT_MDL) 0
           else if lane_change_state self = laneChangeFinishing
           then min (lane_change_ll_prob self + DT_MDL) 1
           else lane_change_ll_prob self))"
proof (intro conjI impI)
  show i: "lane_change_ll_prob (init steerRateCost enabled auto_delay) = 1"
    by (simp add: init_def setup_mpc_def)
  show "0 \<le> lane_change_ll_prob self1" "lane_change_ll_prob self1 \<le> 1"
    if "run (init steerRateCost enabled auto_delay) sms = Inr self1"
    using run_ll_prob_bounds [OF that] i by simp_all
next
  assume u: "update self sm = Inr (self', out)"
  let ?s = "self\<lparr>angle_steers_des_prev := angle_steers_des_mpc self\<rparr>"
  from update_InrD [OF u]
  have "lane_change_ll_prob self' = lane_change_ll_prob (update_lane_change ?s sm)"
    by auto
  then show "lane_change_ll_prob self' =
          (if \<not> active sm \<or> lane_change_run_timer self > 10
              \<or> \<not> (leftBlinker sm \<noteq> rightBlinker sm) \<or> \<not> lane_change_enabled self
           then lane_change_ll_prob self
           else if lane_change_state self = off \<and> \<not> prev_one_blinker self
                   \<and> \<not> vEgo sm < LANE_CHANGE_SPEED_MIN
           then 1
           else if lane_change_state self = laneChangeStarting
           then max (lane_change_ll_prob self
                      - interp (vEgo sm * 3.61) [40, 60, 70, 80] [0.5, 1, 1.5, 2] * DT_MDL) 0
           else if lane_change_state self = laneChangeFinishing
           then min (lane_change_ll_prob self + DT_MDL) 1
           else lane_change_ll_prob self)"
    by (simp add: update_lane_change_ll_prob override_def LANE_CHANGE_TIME_MAX_def)
qed

theorem ll_prob_in_unit_interval_witness:
  "\<not> isl (run (init 1 True 0) [blinker_at_speed, blinker_at_speed, parked])
   \<and> 0 \<le> lane_change_ll_prob (projr (run (init 1 True 0) [blinker_at_speed, blinker_at_speed, parked]))
   \<and> lane_change_ll_prob (projr (run (init 1 True 0) [blinker_at_speed, blinker_at_speed, parked])) \<le> 1
   \<and> \<not> isl (update ((init 1 True 0)\<lparr>lane_change_state := laneChangeStarting,
                      lane_change_direction := left\<rparr>) blinker_at_speed)
   \<and> lane_change_ll_prob (fst (projr (update ((init 1 True 0)\<lparr>lane_change_state := laneChangeStarting,
                      lane_change_direction := left\<rparr>) blinker_at_speed))) = 9/10"
proof -
  let ?sms = "[blinker_at_speed, blinker_at_speed, parked]"
  let ?s = "(init 1 True 0)\<lparr>lane_change_state := laneChangeStarting, lane_change_direction := left\<rparr>"
  obtain self1 where r: "run (init 1 True 0) ?sms = Inr self1"
    using run_returns [of ?sms "init 1 True 0"]
    by (auto simp: blinker_at_speed_def parked_def)
  obtain self' out where u: "update ?s blinker_at_speed = Inr (self', out)"
    using update_returns [of blinker_at_speed ?s]
    by (auto simp: blinker_at_speed_def parked_def)
  have "interp (30 * 3.61) [40, 60, 70, 80] [0.5, 1, 1.5, 2] = 2"
    by (simp add: interp.simps)
  with ll_prob_in_unit_interval [of 1 True 0 ?sms self1 ?s blinker_at_speed self' out] r u
  show ?thesis
    by (simp add: blinker_at_speed_def parked_def init_def setup_mpc_def DT_MDL_def
          LANE_CHANGE_SPEED_MIN_def KPH_TO_MS_def)
qed

subsection \<open>The blinker latch\<close>

text \<open>
  C10. Every tick sets \<open>prev_one_blinker\<close> to \<open>one_blinker\<close>. A tick leaves Off only for
  PreLaneChange, and only on a rising edge of the blinker (one blinker on, the latch
  false) at or above the minimum speed. So from Off with the latch true, as after any
  tick with one blinker on, every run of ticks with one blinker on ends in Off, whatever
  the speed: the blinker has to be released first.
\<close>

theorem held_blinker_stays_off:
  "(update self sm = Inr (self', out) \<longrightarrow>
      prev_one_blinker self' = (leftBlinker sm \<noteq> rightBlinker sm))
   \<and> (update self sm = Inr (self', out) \<and> lane_change_state self = off
        \<and> lane_change_state self' \<noteq> off \<longrightarrow>
      (leftBlinker sm \<noteq> rightBlinker sm) \<and> \<not> prev_one_blinker self
        \<and> \<not> vEgo sm < LANE_CHANGE_SPEED_MIN \<and> lane_change_state self' = preLaneChange)
   \<and> (lane_change_state self = off \<and> prev_one_blinker self
        \<and> (\<forall>sm1\<in>set sms. leftBlinker sm1 \<noteq> rightBlinker sm1)
        \<and> run self sms = Inr self2 \<longrightarrow>
      lane_change_state self2 = off \<and> prev_one_blinker self2)"
proof (intro conjI impI)
  let ?s = "self\<lparr>angle_steers_des_prev := angle_steers_des_mpc self\<rparr>"
  show "prev_one_blinker self' = (leftBlinker sm \<noteq> rightBlinker sm)"
    if "update self sm = Inr (self', out)"
    using update_InrD [OF that] by (auto simp: update_lane_change_frame)
  assume a: "update self sm = Inr (self', out) \<and> lane_change_state self = off
        \<and> lane_change_state self' \<noteq> off"
  then have "lane_change_state ?s = off" "lane_change_state (update_lane_change ?s sm) \<noteq> off"
    and eq: "lane_change_state self' = lane_change_state (update_lane_change ?s sm)"
    using update_InrD [of self sm self' out] by auto
  from update_lane_change_leaves_off [OF this(1,2)] eq
  show "leftBlinker sm \<noteq> rightBlinker sm" "\<not> prev_one_blinker self"
    "\<not> vEgo sm < LANE_CHANGE_SPEED_MIN" "lane_change_state self' = preLaneChange"
    by simp_all
next
  assume "lane_change_state self = off \<and> prev_one_blinker self
        \<and> (\<forall>sm1\<in>set sms. leftBlinker sm1 \<noteq> rightBlinker sm1)
        \<and> run self sms = Inr self2"
  then show "lane_change_state self2 = off" "prev_one_blinker self2"
    using run_stays_off [of self sms self2] by simp_all
qed


theorem held_blinker_stays_off_witness:
  "\<not> isl (run (init 1 True 0) [blinker_below_speed, blinker_at_speed, blinker_at_speed])
   \<and> lane_change_state
        (projr (run (init 1 True 0) [blinker_below_speed, blinker_at_speed, blinker_at_speed])) = off
   \<and> \<not> vEgo blinker_at_speed < LANE_CHANGE_SPEED_MIN
   \<and> lane_change_state (fst (projr (update (init 1 True 0) blinker_at_speed))) = preLaneChange"
proof -
  let ?s = "init 1 True 0"
  let ?p = "?s\<lparr>angle_steers_des_prev := angle_steers_des_mpc ?s\<rparr>"
  obtain s1 out1 where u1: "update ?s blinker_below_speed = Inr (s1, out1)"
    using update_returns [of blinker_below_speed ?s]
    by (auto simp: blinker_below_speed_def parked_def)
  have "lane_change_state (update_lane_change ?p blinker_below_speed) = off"
    by (simp add: update_lane_change_def lane_change_transitions_def override_def Let_def
          init_def setup_mpc_def blinker_below_speed_def parked_def
          LANE_CHANGE_SPEED_MIN_def KPH_TO_MS_def LANE_CHANGE_TIME_MAX_def)
  with update_InrD [OF u1] have off1: "lane_change_state s1 = off" by auto
  have prev1: "prev_one_blinker s1"
    using held_blinker_stays_off [of ?s blinker_below_speed s1 out1] u1
    by (simp add: blinker_below_speed_def parked_def)
  obtain s2 where r: "run s1 [blinker_at_speed, blinker_at_speed] = Inr s2"
    using run_returns [of "[blinker_at_speed, blinker_at_speed]" s1]
    by (auto simp: blinker_at_speed_def parked_def)
  have held: "\<forall>sm1\<in>set [blinker_at_speed, blinker_at_speed]. leftBlinker sm1 \<noteq> rightBlinker sm1"
    by (simp add: blinker_at_speed_def parked_def)
  have off2: "lane_change_state s2 = off"
    using held_blinker_stays_off [of s1 _ _ _ "[blinker_at_speed, blinker_at_speed]" s2]
      off1 prev1 held r by blast
  have whole: "run ?s [blinker_below_speed, blinker_at_speed, blinker_at_speed] = Inr s2"
    using u1 r by simp
  obtain s3 out3 where u3: "update ?s blinker_at_speed = Inr (s3, out3)"
    using update_returns [of blinker_at_speed ?s]
    by (auto simp: blinker_at_speed_def parked_def)
  have "lane_change_state (update_lane_change ?p blinker_at_speed) = preLaneChange"
    by (simp add: update_lane_change_def lane_change_transitions_def override_def Let_def
          init_def setup_mpc_def blinker_at_speed_def parked_def
          LANE_CHANGE_SPEED_MIN_def KPH_TO_MS_def LANE_CHANGE_TIME_MAX_def)
  with update_InrD [OF u3] have pre3: "lane_change_state s3 = preLaneChange" by auto
  have fast: "\<not> vEgo blinker_at_speed < LANE_CHANGE_SPEED_MIN"
    by (simp add: blinker_at_speed_def parked_def LANE_CHANGE_SPEED_MIN_def KPH_TO_MS_def)
  from whole off2 u3 pre3 fast show ?thesis by simp
qed

subsection \<open>The health of the solver\<close>

lemma run_bad_count:
  assumes "run self sms = Inr self'" and "\<forall>sm\<in>set sms. solution_bad sm"
  shows "solution_invalid_cnt self' = solution_invalid_cnt self + length sms"
  using assms
proof (induction sms arbitrary: self)
  case Nil
  then show ?case by simp
next
  case (Cons sm sms)
  from Cons.prems(1) obtain self1 out where
    u: "update self sm = Inr (self1, out)" and r: "run self1 sms = Inr self'"
    by (auto simp: bind_res_eq_Inr)
  from update_InrD [OF u] Cons.prems(2)
  have "solution_invalid_cnt self1 = solution_invalid_cnt self + 1" by auto
  with Cons.IH [OF r] Cons.prems(2) show ?case by simp
qed

text \<open>
  C5. A tick adds 1 to \<open>solution_invalid_cnt\<close> when the cost of the solution is above
  20000 or its delta horizon holds a NaN, and sets it to 0 otherwise; the
  \<open>mpcSolutionValid\<close> it sends says that the counter after this is below 3. So from a
  counter of 0, after a run of bad solutions the next tick sends true exactly when its
  solution is good or fewer than two bad ones came before it: the third bad solution in
  a row is the first to send false, and a good one sends true again.
\<close>

theorem solution_invalid_cnt_counts:
  "(update self sm = Inr (self', out) \<longrightarrow>
      solution_invalid_cnt self' =
        (if fgt (sol_cost (mpc_solution sm)) (Num 20000)
            \<or> list_ex isnan (sol_delta (mpc_solution sm))
         then solution_invalid_cnt self + 1 else 0)
      \<and> mpcSolutionValid (plan_send out) = (solution_invalid_cnt self' < 3))
   \<and> (solution_invalid_cnt self = 0 \<and> (\<forall>sm1\<in>set sms. solution_bad sm1)
        \<and> run self sms = Inr self2 \<and> update self2 sm2 = Inr (self3, out3) \<longrightarrow>
      mpcSolutionValid (plan_send out3) = (\<not> solution_bad sm2 \<or> length sms < 2))"
proof (intro conjI impI)
  assume u: "update self sm = Inr (self', out)"
  from update_InrD [OF u]
  show "solution_invalid_cnt self' =
        (if fgt (sol_cost (mpc_solution sm)) (Num 20000)
            \<or> list_ex isnan (sol_delta (mpc_solution sm))
         then solution_invalid_cnt self + 1 else 0)"
    by (auto simp: solution_bad_def mpc_nans_def)
  from update_InrD [OF u]
  show "mpcSolutionValid (plan_send out) = (solution_invalid_cnt self' < 3)"
    by auto
next
  assume a: "solution_invalid_cnt self = 0 \<and> (\<forall>sm1\<in>set sms. solution_bad sm1)
        \<and> run self sms = Inr self2 \<and> update self2 sm2 = Inr (self3, out3)"
  then have "solution_invalid_cnt self2 = length sms"
    using run_bad_count [of self sms self2] by simp
  moreover from a update_InrD [of self2 sm2 self3 out3]
  have "mpcSolutionValid (plan_send out3)
          = ((if solution_bad sm2 then solution_invalid_cnt self2 + 1 else 0) < 3)"
    by auto
  ultimately show "mpcSolutionValid (plan_send out3) = (\<not> solution_bad sm2 \<or> length sms < 2)"
    by auto
qed

theorem solution_invalid_cnt_counts_witness:
  "\<not> isl (update (init 1 True 0) nan_tick)
   \<and> solution_invalid_cnt (fst (projr (update (init 1 True 0) nan_tick))) = 1
   \<and> mpcSolutionValid (plan_send (snd (projr (update (init 1 True 0) nan_tick))))
   \<and> \<not> isl (run (init 1 True 0) [nan_tick, costly_tick])
   \<and> \<not> mpcSolutionValid (plan_send (snd (projr
           (update (projr (run (init 1 True 0) [nan_tick, costly_tick])) nan_tick))))
   \<and> mpcSolutionValid (plan_send (snd (projr
           (update (projr (run (init 1 True 0) [nan_tick, costly_tick])) parked))))"
proof -
  let ?s = "init 1 True 0"
  have bad: "solution_bad nan_tick" "solution_bad costly_tick" "\<not> solution_bad parked"
    by (simp_all add: solution_bad_def mpc_nans_def nan_tick_def costly_tick_def parked_def
          two_nans_def)
  have nan: "list_ex isnan (sol_delta (mpc_solution nan_tick))"
    by (simp add: nan_tick_def two_nans_def)
  obtain s1 out1 where u1: "update ?s nan_tick = Inr (s1, out1)"
    using update_returns [of nan_tick ?s] by (auto simp: nan_tick_def parked_def two_nans_def)
  obtain s2 where r: "run ?s [nan_tick, costly_tick] = Inr s2"
    using run_returns [of "[nan_tick, costly_tick]" ?s]
    by (auto simp: nan_tick_def costly_tick_def parked_def two_nans_def)
  obtain s3 out3 where u3: "update s2 nan_tick = Inr (s3, out3)"
    using update_returns [of nan_tick s2] by (auto simp: nan_tick_def parked_def two_nans_def)
  obtain s4 out4 where u4: "update s2 parked = Inr (s4, out4)"
    using update_returns [of parked s2] by (auto simp: parked_def)
  have c0: "solution_invalid_cnt ?s = 0" by (simp add: init_def setup_mpc_def)
  have all: "\<forall>sm1\<in>set [nan_tick, costly_tick]. solution_bad sm1" using bad by simp
  from solution_invalid_cnt_counts [of ?s nan_tick s1 out1 "[]" ?s nan_tick s1 out1] u1 nan c0
  have "solution_invalid_cnt s1 = 1" "mpcSolutionValid (plan_send out1)" by simp_all
  moreover
  from solution_invalid_cnt_counts [of ?s nan_tick s1 out1 "[nan_tick, costly_tick]" s2 nan_tick s3 out3]
    c0 all r u3 bad
  have "\<not> mpcSolutionValid (plan_send out3)" by simp
  moreover
  from solution_invalid_cnt_counts [of ?s nan_tick s1 out1 "[nan_tick, costly_tick]" s2 parked s4 out4]
    c0 all r u4 bad
  have "mpcSolutionValid (plan_send out4)" by simp
  ultimately show ?thesis using u1 r u3 u4 by simp
qed

subsection \<open>The authority limiter\<close>

lemma torque_limit_bounds:
  "0 \<le> interp t [- 450, 0, 450] [5, 0, 5]"
  "interp t [- 450, 0, 450] [5, 0, 5] \<le> 5"
  by (auto simp: interp.simps field_simps)

lemma low_speed_limit_bounds:
  "1 \<le> interp v [5, 15, 30] [1, 3, 5]"
  "interp v [5, 15, 30] [1, 3, 5] \<le> 5"
  by (auto simp: interp.simps field_simps)

lemma limit_ctrl_formula:
  assumes "0 \<le> lmt"
  shows "limit_ctrl (Num v) (Num lmt) (Num ofs) = Num (max (ofs - lmt) (min v (ofs + lmt)))"
  using assms by (auto simp: limit_ctrl_def Let_def)

lemma low_speed_limit_nonneg: "0 \<le> interp v [5, 15, 30] [1, 3, 5]"
  using low_speed_limit_bounds(1) [of v] by simp

lemma update_limiter_regimes:
  "update_limiter sm org =
        (if steeringPressed sm then
           (if (steeringTorque sm < 0 \<and> fgt (fsub org (Num (steeringAngle sm))) (Num 0))
               \<or> (steeringTorque sm > 0 \<and> flt (fsub org (Num (steeringAngle sm))) (Num 0))
            then limit_ctrl org (Num (interp (steeringTorque sm) [- 450, 0, 450] [5, 0, 5]))
                   (Num (steeringAngle sm))
            else org)
         else if vEgo sm * 3.61 < 30
         then limit_ctrl org (Num (interp (vEgo sm * 3.61) [5, 15, 30] [1, 3, 5]))
                (Num (steeringAngle sm))
         else org)"
  by (simp add: update_limiter_def Let_def)

text \<open>
  C6. Let \<open>org\<close> be the angle before the limiter,
  \<open>degrees (delta_desired * sR) + angle_offset\<close>. The angle sent is: with the wheel
  pressed, \<open>limit_ctrl org limit angle_steers\<close> for the limit interpolated from the
  torque over [-450, 0, 450] and [5, 0, 5] when the torque is negative and
  \<open>org - angle_steers\<close> positive, or the torque positive and \<open>org - angle_steers\<close> negative,
  and \<open>org\<close> otherwise; with the wheel not pressed and \<open>v_ego * 3.61\<close> below 30,
  \<open>limit_ctrl org limit angle_steers\<close> for the limit interpolated from that speed over
  [5, 15, 30] and [1, 3, 5]; and \<open>org\<close> in every other case. For a finite \<open>org\<close> the
  limited angle is \<open>org\<close> clamped into the interval from \<open>angle_steers - limit\<close> to
  \<open>angle_steers + limit\<close>.
\<close>

theorem authority_limiter_regimes:
  assumes "update self sm = Inr (self', out)"
  shows "\<exists>delta_desired rate_desired org.
      update_desired sm = Inr (delta_desired, rate_desired)
    \<and> org = fadd (fdegrees (fmul delta_desired (Num (VM_sR sm)))) (Num (angleOffset sm))
    \<and> angleSteers (plan_send out) =
        (if steeringPressed sm then
           (if (steeringTorque sm < 0 \<and> fgt (fsub org (Num (steeringAngle sm))) (Num 0))
               \<or> (steeringTorque sm > 0 \<and> flt (fsub org (Num (steeringAngle sm))) (Num 0))
            then limit_ctrl org (Num (interp (steeringTorque sm) [- 450, 0, 450] [5, 0, 5]))
                   (Num (steeringAngle sm))
            else org)
         else if vEgo sm * 3.61 < 30
         then limit_ctrl org (Num (interp (vEgo sm * 3.61) [5, 15, 30] [1, 3, 5]))
                (Num (steeringAngle sm))
         else org)
    \<and> (\<forall>a. org = Num a \<longrightarrow>
          angleSteers (plan_send out) =
            (if steeringPressed sm then
               (if (steeringTorque sm < 0 \<and> a - steeringAngle sm > 0)
                   \<or> (steeringTorque sm > 0 \<and> a - steeringAngle sm < 0)
                then Num (max (steeringAngle sm - interp (steeringTorque sm) [- 450, 0, 450] [5, 0, 5])
                           (min a (steeringAngle sm + interp (steeringTorque sm) [- 450, 0, 450] [5, 0, 5])))
                else Num a)
             else if vEgo sm * 3.61 < 30
             then Num (max (steeringAngle sm - interp (vEgo sm * 3.61) [5, 15, 30] [1, 3, 5])
                        (min a (steeringAngle sm + interp (vEgo sm * 3.61) [5, 15, 30] [1, 3, 5])))
             else Num a))"
proof -
  from update_InrD [OF assms] obtain dd rd where
    d: "update_desired sm = Inr (dd, rd)"
    and a: "angleSteers (plan_send out)
             = update_limiter sm (fadd (fdegrees (fmul dd (Num (VM_sR sm)))) (Num (angleOffset sm)))"
    by auto
  define org where "org = fadd (fdegrees (fmul dd (Num (VM_sR sm)))) (Num (angleOffset sm))"
  have a': "angleSteers (plan_send out) = update_limiter sm org"
    using a by (simp add: org_def)
  have fin: "update_limiter sm (Num a) =
            (if steeringPressed sm then
               (if (steeringTorque sm < 0 \<and> a - steeringAngle sm > 0)
                   \<or> (steeringTorque sm > 0 \<and> a - steeringAngle sm < 0)
                then Num (max (steeringAngle sm - interp (steeringTorque sm) [- 450, 0, 450] [5, 0, 5])
                           (min a (steeringAngle sm + interp (steeringTorque sm) [- 450, 0, 450] [5, 0, 5])))
                else Num a)
             else if vEgo sm * 3.61 < 30
             then Num (max (steeringAngle sm - interp (vEgo sm * 3.61) [5, 15, 30] [1, 3, 5])
                        (min a (steeringAngle sm + interp (vEgo sm * 3.61) [5, 15, 30] [1, 3, 5])))
             else Num a)" for a
    unfolding update_limiter_regimes
    by (simp add: limit_ctrl_formula torque_limit_bounds(1) low_speed_limit_nonneg)
  show ?thesis
    by (rule exI [where x = dd], rule exI [where x = rd], rule exI [where x = org])
       (use d a' fin org_def in \<open>simp add: update_limiter_regimes [symmetric]\<close>)
qed

lemma update_desired_left_turn:
  "update_desired cruise = Inr (Num (1 / 100), Num 0)"
  "update_desired driver_fight = Inr (Num (1 / 100), Num 0)"
  "update_desired crawl = Inr (Num (1 / 100), Num 0)"
  by (simp_all add: update_desired_def index_def cruise_def driver_fight_def crawl_def
        parked_def left_turn_def degrees_def)

lemma update_returns_examples:
  "\<exists>self' out. update self cruise = Inr (self', out)"
  "\<exists>self' out. update self driver_fight = Inr (self', out)"
  "\<exists>self' out. update self crawl = Inr (self', out)"
  "\<exists>self' out. update self nan_tick = Inr (self', out)"
  by (rule update_returns;
      simp add: cruise_def driver_fight_def crawl_def nan_tick_def parked_def left_turn_def
        two_nans_def)+

lemma degrees_left_turn: "5 < degrees (3 / 20)"
  using pi_less_4 pi_gt_zero by (simp add: degrees_def field_simps)

theorem authority_limiter_regimes_witness:
  "\<not> isl (update (init 1 True 0) driver_fight)
   \<and> angleSteers (plan_send (snd (projr (update (init 1 True 0) driver_fight)))) = Num 5
   \<and> \<not> isl (update (init 1 True 0) crawl)
   \<and> angleSteers (plan_send (snd (projr (update (init 1 True 0) crawl)))) = Num 1
   \<and> \<not> isl (update (init 1 True 0) cruise)
   \<and> angleSteers (plan_send (snd (projr (update (init 1 True 0) cruise)))) = Num (degrees (3 / 20))"
proof -
  let ?s = "init 1 True 0"
  obtain s1 out1 where u1: "update ?s driver_fight = Inr (s1, out1)"
    using update_returns_examples(2) by blast
  obtain s2 out2 where u2: "update ?s crawl = Inr (s2, out2)"
    using update_returns_examples(3) by blast
  obtain s3 out3 where u3: "update ?s cruise = Inr (s3, out3)"
    using update_returns_examples(1) by blast
  have t: "interp (- 450) [- 450, 0, 450] [5, 0, 5] = 5" "interp 0 [5, 15, 30] [1, 3, 5] = 1"
    by (simp_all add: interp.simps)
  have "angleSteers (plan_send out1) = Num 5"
    using authority_limiter_regimes [OF u1] t degrees_left_turn
    by (auto simp: update_desired_left_turn)
       (simp_all add: driver_fight_def cruise_def parked_def limit_ctrl_def)
  moreover have "angleSteers (plan_send out2) = Num 1"
    using authority_limiter_regimes [OF u2] t degrees_left_turn
    by (auto simp: update_desired_left_turn)
       (simp_all add: crawl_def cruise_def parked_def limit_ctrl_def)
  moreover have "angleSteers (plan_send out3) = Num (degrees (3 / 20))"
    using authority_limiter_regimes [OF u3]
    by (auto simp: update_desired_left_turn)
       (simp_all add: cruise_def parked_def)
  ultimately show ?thesis using u1 u2 u3 by simp
qed

subsection \<open>The state of the solver and the angle sent\<close>

lemma update_desired_cases:
  assumes "update_desired sm = Inr (dd, rd)"
  shows "active sm \<Longrightarrow> 1 < length (sol_delta (mpc_solution sm)) \<and> dd = sol_delta (mpc_solution sm) ! 1"
    and "\<not> active sm \<Longrightarrow> dd = Num (radians (steeringAngle sm - angleOffset sm) / VM_sR sm)"
  using assms
  by (auto simp: update_desired_def index_def bind_res_eq_Inr pydiv_def split: if_splits)

text \<open>
  C2, as the code has it. At the end of a tick \<open>cur_state.delta\<close> is \<open>delta_desired\<close>, the
  command before the authority limiter in radians at the road wheel (the second sample
  of the solver's delta horizon when the controls are active,
  \<open>radians (angle_steers - angle_offset) / sR\<close> when they are not), unless the delta
  horizon holds a NaN: then it is \<open>radians (angle_steers - angle_offset) / sR\<close>. The
  \<open>angleSteers\<close> sent is the authority limiter applied to
  \<open>org = degrees (delta_desired * sR) + angle_offset\<close>. So on a tick with no NaN in the
  delta horizon on which the limiter leaves \<open>org\<close> as it is, the \<open>angleSteers\<close> sent is
  \<open>degrees (cur_state.delta * sR) + angle_offset\<close>.
\<close>

theorem cur_state_delta_is_delta_desired:
  assumes "update self sm = Inr (self', out)"
  shows "\<exists>delta_desired rate_desired org.
      update_desired sm = Inr (delta_desired, rate_desired)
    \<and> (active sm \<longrightarrow> delta_desired = sol_delta (mpc_solution sm) ! 1)
    \<and> (\<not> active sm \<longrightarrow>
          delta_desired = Num (radians (steeringAngle sm - angleOffset sm) / VM_sR sm))
    \<and> org = fadd (fdegrees (fmul delta_desired (Num (VM_sR sm)))) (Num (angleOffset sm))
    \<and> state_delta (cur_state self') =
         (if list_ex isnan (sol_delta (mpc_solution sm))
          then Num (radians (steeringAngle sm - angleOffset sm) / VM_sR sm)
          else delta_desired)
    \<and> angleSteers (plan_send out) = update_limiter sm org
    \<and> (\<not> list_ex isnan (sol_delta (mpc_solution sm)) \<and> update_limiter sm org = org \<longrightarrow>
          angleSteers (plan_send out) =
            fadd (fdegrees (fmul (state_delta (cur_state self')) (Num (VM_sR sm))))
              (Num (angleOffset sm)))"
proof -
  from update_InrD [OF assms] obtain dd rd where
    d: "update_desired sm = Inr (dd, rd)"
    and a: "angleSteers (plan_send out)
             = update_limiter sm (fadd (fdegrees (fmul dd (Num (VM_sR sm)))) (Num (angleOffset sm)))"
    and c: "state_delta (cur_state self')
             = (if mpc_nans sm then Num (radians (steeringAngle sm - angleOffset sm) / VM_sR sm)
                else dd)"
    by auto
  define org where "org = fadd (fdegrees (fmul dd (Num (VM_sR sm)))) (Num (angleOffset sm))"
  have a': "angleSteers (plan_send out) = update_limiter sm org"
    using a by (simp add: org_def)
  have c': "state_delta (cur_state self') =
         (if list_ex isnan (sol_delta (mpc_solution sm))
          then Num (radians (steeringAngle sm - angleOffset sm) / VM_sR sm)
          else dd)"
    using c by (simp add: mpc_nans_def)
  show ?thesis
    by (rule exI [where x = dd], rule exI [where x = rd], rule exI [where x = org])
       (use d a' c' org_def update_desired_cases [OF d] in auto)
qed

theorem cur_state_delta_is_delta_desired_witness:
  "\<not> isl (update (init 1 True 0) cruise)
   \<and> state_delta (cur_state (fst (projr (update (init 1 True 0) cruise)))) = Num (1 / 100)
   \<and> angleSteers (plan_send (snd (projr (update (init 1 True 0) cruise))))
       = fadd (fdegrees (fmul (state_delta (cur_state (fst (projr (update (init 1 True 0) cruise)))))
                 (Num (VM_sR cruise)))) (Num (angleOffset cruise))"
proof -
  let ?s = "init 1 True 0"
  obtain s3 out3 where u3: "update ?s cruise = Inr (s3, out3)"
    using update_returns_examples(1) by blast
  have nn: "\<not> list_ex isnan (sol_delta (mpc_solution cruise))"
    by (simp add: cruise_def parked_def left_turn_def)
  have lim: "update_limiter cruise org = org" for org
    by (simp add: update_limiter_def Let_def cruise_def parked_def)
  from cur_state_delta_is_delta_desired [OF u3] nn lim
  have "state_delta (cur_state s3) = Num (1 / 100)"
    "angleSteers (plan_send out3)
       = fadd (fdegrees (fmul (state_delta (cur_state s3)) (Num (VM_sR cruise))))
           (Num (angleOffset cruise))"
    by (auto simp: update_desired_left_turn)
  with u3 show ?thesis by simp
qed

text \<open>
  Two ticks on which the angle sent is not \<open>degrees (cur_state.delta * sR) + angle_offset\<close>.
  Engaged at standstill with a solution that asks for about 8.6 degrees: the low-speed
  limiter sends 1 degree, and \<open>cur_state.delta\<close> keeps the solver's 0.01 rad. Engaged
  with a solution of NaN: the angle sent is NaN, and \<open>cur_state.delta\<close> is reset to the
  measured angle, here 0.
\<close>

theorem commanded_angle_counterexample:
  "\<not> isl (update (init 1 True 0) crawl)
   \<and> angleSteers (plan_send (snd (projr (update (init 1 True 0) crawl)))) = Num 1
   \<and> fadd (fdegrees (fmul (state_delta (cur_state (fst (projr (update (init 1 True 0) crawl)))))
             (Num (VM_sR crawl)))) (Num (angleOffset crawl)) = Num (degrees (3 / 20))
   \<and> angleSteers (plan_send (snd (projr (update (init 1 True 0) crawl))))
       \<noteq> fadd (fdegrees (fmul (state_delta (cur_state (fst (projr (update (init 1 True 0) crawl)))))
             (Num (VM_sR crawl)))) (Num (angleOffset crawl))
   \<and> \<not> isl (update (init 1 True 0) nan_tick)
   \<and> angleSteers (plan_send (snd (projr (update (init 1 True 0) nan_tick)))) = NaN
   \<and> fadd (fdegrees (fmul (state_delta (cur_state (fst (projr (update (init 1 True 0) nan_tick)))))
             (Num (VM_sR nan_tick)))) (Num (angleOffset nan_tick)) = Num 0"
proof -
  let ?s = "init 1 True 0"
  obtain s2 out2 where u2: "update ?s crawl = Inr (s2, out2)"
    using update_returns_examples(3) by blast
  obtain s4 out4 where u4: "update ?s nan_tick = Inr (s4, out4)"
    using update_returns_examples(4) by blast
  have t: "interp 0 [5, 15, 30] [1, 3, 5] = 1"
    by (simp add: interp.simps)
  have nn: "\<not> mpc_nans crawl" "mpc_nans nan_tick"
    by (simp_all add: mpc_nans_def crawl_def cruise_def nan_tick_def parked_def left_turn_def
          two_nans_def)
  have dn: "update_desired nan_tick = Inr (NaN, NaN)"
    by (simp add: update_desired_def index_def nan_tick_def parked_def two_nans_def)
  have f2: "VM_sR crawl = 15" "angleOffset crawl = 0" "steeringAngle crawl = 0"
    "\<not> steeringPressed crawl" "vEgo crawl = 0"
    by (simp_all add: crawl_def cruise_def parked_def)
  have f4: "VM_sR nan_tick = 15" "angleOffset nan_tick = 0" "steeringAngle nan_tick = 0"
    "\<not> steeringPressed nan_tick" "vEgo nan_tick = 0"
    by (simp_all add: nan_tick_def parked_def)
  from update_InrD [OF u2] obtain dd rd where
    "update_desired crawl = Inr (dd, rd)"
    and a2: "angleSteers (plan_send out2)
              = update_limiter crawl
                  (fadd (fdegrees (fmul dd (Num (VM_sR crawl)))) (Num (angleOffset crawl)))"
    and c2: "state_delta (cur_state s2)
              = (if mpc_nans crawl
                 then Num (radians (steeringAngle crawl - angleOffset crawl) / VM_sR crawl)
                 else dd)"
    by auto
  then have dd: "dd = Num (1 / 100)"
    by (simp add: update_desired_left_turn)
  have org2: "fadd (fdegrees (fmul dd (Num (VM_sR crawl)))) (Num (angleOffset crawl))
                = Num (degrees (3 / 20))"
    by (simp add: dd f2)
  have lim2: "update_limiter crawl (Num (degrees (3 / 20))) = Num 1"
    using degrees_left_turn t by (simp add: update_limiter_regimes f2 limit_ctrl_def)
  have p2: "angleSteers (plan_send out2) = Num 1"
    using a2 org2 lim2 by simp
  have q2: "fadd (fdegrees (fmul (state_delta (cur_state s2)) (Num (VM_sR crawl))))
              (Num (angleOffset crawl)) = Num (degrees (3 / 20))"
    using c2 nn(1) org2 by simp
  from update_InrD [OF u4] obtain dd4 rd4 where
    "update_desired nan_tick = Inr (dd4, rd4)"
    and a4: "angleSteers (plan_send out4)
              = update_limiter nan_tick
                  (fadd (fdegrees (fmul dd4 (Num (VM_sR nan_tick)))) (Num (angleOffset nan_tick)))"
    and c4: "state_delta (cur_state s4)
              = (if mpc_nans nan_tick
                 then Num (radians (steeringAngle nan_tick - angleOffset nan_tick) / VM_sR nan_tick)
                 else dd4)"
    by auto
  then have dd4: "dd4 = NaN"
    by (simp add: dn)
  have p4: "angleSteers (plan_send out4) = NaN"
    using a4 by (simp add: dd4 update_limiter_regimes f4 limit_ctrl_def)
  have q4: "fadd (fdegrees (fmul (state_delta (cur_state s4)) (Num (VM_sR nan_tick))))
              (Num (angleOffset nan_tick)) = Num 0"
    using c4 nn(2) by (simp add: f4 radians_def degrees_def)
  have "degrees (3 / 20) \<noteq> 1"
    using degrees_left_turn by simp
  with u2 u4 p2 q2 p4 q4 show ?thesis by simp
qed

end
